theory Spec2Isabelle
  imports Main "HOL-Library.Sublist"
begin

section \<open>Strings\<close>

text \<open>
  Python \<open>str\<close> values are modelled as \<open>string\<close> (lists of 8-bit characters).
  \<open>x in s\<close> on strings is \<open>sublist x s\<close>, \<open>s.endswith(x)\<close> is \<open>suffix x s\<close>
  and \<open>s.startswith(x)\<close> is \<open>prefix x s\<close>.  \<open>str.lower\<close> is modelled on the ASCII
  letters; every other character is left as it is.
\<close>

definition lower_char :: "char \<Rightarrow> char" where
  "lower_char c =
     (let n = (of_char c :: nat) in if 65 \<le> n \<and> n \<le> 90 then char_of (n + 32) else c)"

definition lower :: "string \<Rightarrow> string" where
  "lower s = map lower_char s"

text \<open>\<open>s.split(sep)\<close> for a separator of one character: never the empty list.\<close>

fun split :: "char \<Rightarrow> string \<Rightarrow> string list" where
  "split sep [] = [[]]"
| "split sep (c # cs) =
     (if c = sep then [] # split sep cs
      else (case split sep cs of
              [] \<Rightarrow> [[c]]
            | w # ws \<Rightarrow> (c # w) # ws))"

text \<open>
  \<open>s.replace(old, new)\<close> for a non-empty \<open>old\<close>: scanning from the left, every
  occurrence of \<open>old\<close> that does not overlap an earlier replaced one is replaced.
  For the empty \<open>old\<close> Python puts \<open>new\<close> before every character and at the end.
\<close>

function replace :: "string \<Rightarrow> string \<Rightarrow> string \<Rightarrow> string" where
  "replace old new s =
     (if old = [] then concat (map (\<lambda>c. new @ [c]) s) @ new
      else if s = [] then []
      else if prefix old s then new @ replace old new (drop (length old) s)
      else hd s # replace old new (tl s))"
  by pat_completeness auto
termination
  by (relation "measure (\<lambda>(old, new, s). length s)") (auto simp: neq_Nil_conv)

declare replace.simps [simp del]

section \<open>The encyclopedia category client\<close>

text \<open>
  A page of the \<open>wikipediaapi\<close> library, as far as the program reads it: its title, its
  namespace number and the values of its \<open>categories\<close> mapping, in iteration order.
  \<open>wikipediaapi.Namespace.CATEGORY\<close> is the MediaWiki namespace 14.
\<close>

datatype WikipediaPage =
  WikipediaPage (title: string) (ns: int) (categories: "WikipediaPage list")

definition CATEGORY :: int where
  "CATEGORY = 14"

text \<open>The loop of \<open>is_comarca\<close> over the parent categories, with its early return.\<close>

fun is_comarca_loop :: "WikipediaPage list \<Rightarrow> bool" where
  "is_comarca_loop [] = False"
| "is_comarca_loop (category # rest) =
     (if ''categoria:comarques de catalunya'' = lower (title category) then True
      else is_comarca_loop rest)"

definition is_comarca :: "WikipediaPage \<Rightarrow> bool" where
  "is_comarca page =
     (if sublist ''de catalunya'' (lower (title page)) then False
      else is_comarca_loop (categories page))"

text \<open>
  \<open>get_comarques_categories\<close> of \<open>run.py\<close>; the argument is the list of values of
  \<open>comarques.categorymembers\<close>.
\<close>

definition get_comarques_categories :: "WikipediaPage list \<Rightarrow> WikipediaPage list" where
  "get_comarques_categories comarques_pages =
     filter (\<lambda>page. ns page = CATEGORY \<and> is_comarca page) comarques_pages"

section \<open>The subregion record\<close>

text \<open>
  The dataclass \<open>ComarcaData\<close> of \<open>models.py\<close>: \<open>comarca\<close> is a \<open>str\<close>, the three other
  fields are \<open>Optional[str]\<close> with default \<open>None\<close>.
\<close>

record ComarcaData =
  comarca :: string
  capital :: "string option"
  map_url :: "string option"
  escut_url :: "string option"

definition new_ComarcaData :: "string \<Rightarrow> string option \<Rightarrow> ComarcaData" where
  "new_ComarcaData comarca_name cap =
     \<lparr>comarca = comarca_name, capital = cap, map_url = None, escut_url = None\<rparr>"

definition MEDIA_FILES :: "string list" where
  "MEDIA_FILES = [''map_url'', ''escut_url'']"

section \<open>Exceptions and the log\<close>

text \<open>
  An exception is its class and the text \<open>str(e)\<close> that a log message shows.  The
  classes are those the program can meet: the built-in ones raised by subscripting,
  \<open>next\<close>, attribute access and \<open>Path\<close>, \<open>OSError\<close> from the file system, and the four
  classes of \<open>requests.exceptions\<close> that \<open>WikiApi.py\<close> imports (every exception of
  \<open>requests\<close> is a \<open>RequestException\<close>).
\<close>

datatype exn_kind =
  KeyError | TypeError | IndexError | StopIteration | AttributeError | ValueError | OSError
  | HTTPError | ConnectionError | Timeout | RequestException

datatype exn = Exn (kind: exn_kind) (message: string)

definition bind :: "exn + 'a \<Rightarrow> ('a \<Rightarrow> exn + 'b) \<Rightarrow> exn + 'b" where
  "bind r f = (case r of Inl e \<Rightarrow> Inl e | Inr v \<Rightarrow> f v)"

text \<open>\<open>repr\<close> of a string without quotes or escapes in it: the string in single quotes.\<close>

definition repr :: "string \<Rightarrow> string" where
  "repr s = [CHR 0x27] @ s @ [CHR 0x27]"

text \<open>A dictionary with string keys, in insertion order; \<open>d[k]\<close> raises \<open>KeyError\<close>.\<close>

type_synonym 'v dict = "(string \<times> 'v) list"

definition getitem :: "'v dict \<Rightarrow> string \<Rightarrow> exn + 'v" where
  "getitem d k = (case map_of d k of None \<Rightarrow> Inl (Exn KeyError (repr k)) | Some v \<Rightarrow> Inr v)"

text \<open>\<open>next(iter(d))\<close>: the first key, \<open>StopIteration\<close> on the empty dictionary.\<close>

definition next_iter :: "'v dict \<Rightarrow> exn + string" where
  "next_iter d = (case d of [] \<Rightarrow> Inl (Exn StopIteration []) | (k, v) # rest \<Rightarrow> Inr k)"

text \<open>\<open>xs[0]\<close> on a list.\<close>

definition first :: "'a list \<Rightarrow> exn + 'a" where
  "first xs =
     (case xs of [] \<Rightarrow> Inl (Exn IndexError ''list index out of range'') | x # rest \<Rightarrow> Inr x)"

datatype level = WARNING | ERROR

type_synonym log = "(level \<times> string) list"

text \<open>How an f-string shows an \<open>Optional[str]\<close>.\<close>

definition str :: "string option \<Rightarrow> string" where
  "str v = (case v of None \<Rightarrow> ''None'' | Some s \<Rightarrow> s)"

text \<open>
  \<open>getattr(comarca, field)\<close> and \<open>setattr(data, field, path)\<close> on a \<open>ComarcaData\<close>.
  Reading an attribute the class does not have raises \<open>AttributeError\<close>; setting one
  adds an attribute that nothing in the program reads.
\<close>

definition getattr :: "ComarcaData \<Rightarrow> string \<Rightarrow> exn + string option" where
  "getattr data field =
     (if field = ''comarca'' then Inr (Some (comarca data))
      else if field = ''capital'' then Inr (capital data)
      else if field = ''map_url'' then Inr (map_url data)
      else if field = ''escut_url'' then Inr (escut_url data)
      else Inl (Exn AttributeError
                 (repr ''ComarcaData'' @ '' object has no attribute '' @ repr field)))"

definition setattr :: "ComarcaData \<Rightarrow> string \<Rightarrow> string \<Rightarrow> ComarcaData" where
  "setattr data field v =
     (if field = ''comarca'' then data\<lparr>comarca := v\<rparr>
      else if field = ''capital'' then data\<lparr>capital := Some v\<rparr>
      else if field = ''map_url'' then data\<lparr>map_url := Some v\<rparr>
      else if field = ''escut_url'' then data\<lparr>escut_url := Some v\<rparr>
      else data)"

section \<open>The outside world\<close>

text \<open>
  The JSON that the two MediaWiki endpoints answer, typed as the program reads it:
  \<open>response["query"]["pages"]\<close> is a dictionary from page ids to page entries, an entry
  may carry an \<open>images\<close> list and an \<open>imageinfo\<close> list, and the elements of both lists are
  objects with string members (\<open>title\<close>, \<open>url\<close>).  A key that may be missing is an
  \<open>option\<close>.
\<close>

record page_entry =
  images :: "string dict list option"
  imageinfo :: "string dict list option"

record query_result =
  pages :: "page_entry dict option"

record response =
  query :: "query_result option"

text \<open>
  A document of \<open>BeautifulSoup\<close>: strings and tags with their contents.  A string has
  the class the parser gave it: \<open>NavigableString\<close> itself (here \<open>PlainString\<close>) for
  ordinary text, or one of its subclasses for a CDATA section, a comment, a
  declaration, a doctype, a processing instruction, and for the text inside a
  \<open>style\<close>, \<open>script\<close>, \<open>template\<close>, \<open>rt\<close> or \<open>rp\<close> tag.
\<close>

datatype string_class =
  PlainString | CData | Comment | Declaration | Doctype | ProcessingInstruction
  | Stylesheet | Script | TemplateString | RubyTextString | RubyParenthesisString

datatype node =
  NavigableString string_class string | Tag (name: string) (contents: "node list")

text \<open>
  What \<open>requests.get\<close> returns when it does not raise: \<open>raise_for_status\<close> is the
  exception that \<open>response.raise_for_status()\<close> raises, if any, and \<open>content\<close> the body.
\<close>

record http_response =
  raise_for_status :: "exn option"
  content :: string

text \<open>
  Everything the program does not compute itself, as functions of the call:
  \<^item> \<open>requests_get_json url params\<close> is \<open>requests.get(url, params=params).json()\<close>;
  \<^item> \<open>requests_get url headers\<close> is \<open>requests.get(url, headers=headers)\<close>, where \<open>url\<close>
    may be \<open>None\<close> and \<open>headers\<close> is empty when the call passes none;
  \<^item> \<open>html_parser\<close> is \<open>BeautifulSoup(content, 'html.parser')\<close>, which gives the document
    as a tag of its own;
  \<^item> \<open>open_wb filename\<close> is the exception of \<open>open(filename, 'wb')\<close>, if any;
  \<^item> \<open>file_write filename content\<close> is the exception of \<open>file.write(content)\<close>, if any,
    with the number of bytes that reached the file before it.
\<close>

record world =
  requests_get_json :: "string \<Rightarrow> string dict \<Rightarrow> exn + response"
  requests_get :: "string option \<Rightarrow> string dict \<Rightarrow> exn + http_response"
  html_parser :: "string \<Rightarrow> node"
  open_wb :: "string \<Rightarrow> exn option"
  file_write :: "string \<Rightarrow> string \<Rightarrow> (exn \<times> nat) option"

text \<open>The files on disk: path to content.\<close>

type_synonym fs = "string \<rightharpoonup> string"

section \<open>The media resolution client of \<open>run.py\<close>\<close>

definition wikipedia_api_url :: string where
  "wikipedia_api_url = ''https://ca.wikipedia.org/w/api.php''"

definition commons_api_url :: string where
  "commons_api_url = ''https://commons.wikimedia.org/w/api.php''"

definition get_image_titles_params :: "string \<Rightarrow> string dict" where
  "get_image_titles_params page_title =
     [(''action'', ''query''), (''prop'', ''images''), (''format'', ''json''),
      (''titles'', page_title)]"

text \<open>\<open>response["query"]["pages"]\<close> and the entry under its first key.\<close>

definition response_pages :: "response \<Rightarrow> exn + page_entry dict" where
  "response_pages r =
     (case query r of
        None \<Rightarrow> Inl (Exn KeyError (repr ''query''))
      | Some q \<Rightarrow>
          (case pages q of
             None \<Rightarrow> Inl (Exn KeyError (repr ''pages''))
           | Some ps \<Rightarrow> Inr ps))"

definition first_page :: "response \<Rightarrow> exn + page_entry" where
  "first_page r =
     bind (response_pages r) (\<lambda>ps.
     bind (next_iter ps) (\<lambda>page_id.
     bind (response_pages r) (\<lambda>ps'. getitem ps' page_id)))"

text \<open>
  The comprehension \<open>[image["title"] for image in images if image["title"].endswith('.svg')]\<close>.
\<close>

fun svg_titles :: "string dict list \<Rightarrow> exn + string list" where
  "svg_titles [] = Inr []"
| "svg_titles (img # rest) =
     bind (getitem img ''title'') (\<lambda>t.
       if suffix ''.svg'' t
       then bind (getitem img ''title'') (\<lambda>t'. bind (svg_titles rest) (\<lambda>ts. Inr (t' # ts)))
       else svg_titles rest)"

definition get_image_titles_of :: "response \<Rightarrow> exn + string list" where
  "get_image_titles_of r =
     bind (first_page r) (\<lambda>page.
       case images page of
         None \<Rightarrow> Inl (Exn KeyError (repr ''images''))
       | Some imgs \<Rightarrow> svg_titles imgs)"

definition get_image_titles :: "world \<Rightarrow> string \<Rightarrow> exn + string list" where
  "get_image_titles w page_title =
     bind (requests_get_json w wikipedia_api_url (get_image_titles_params page_title))
       get_image_titles_of"

definition get_image_info_params :: "string \<Rightarrow> string dict" where
  "get_image_info_params image_title =
     [(''action'', ''query''), (''prop'', ''imageinfo''), (''format'', ''json''),
      (''iiprop'', ''url''), (''titles'', replace ''Fitxer:'' ''File:'' image_title)]"

text \<open>
  Functions that log return their result, or the exception they raise, with the
  messages they have logged up to there.
\<close>

definition get_image_info_of :: "string \<Rightarrow> response \<Rightarrow> (exn + string option) \<times> log" where
  "get_image_info_of image_title r =
     (case first_page r of
        Inl e \<Rightarrow> (Inl e, [])
      | Inr page \<Rightarrow>
          (case imageinfo page of
             Some infos \<Rightarrow>
               (bind (first infos) (\<lambda>image_info.
                bind (getitem image_info ''url'') (\<lambda>u. Inr (Some u))), [])
           | None \<Rightarrow>
               (Inr None, [(WARNING, ''No image info found for '' @ image_title)])))"

definition get_image_info :: "world \<Rightarrow> string \<Rightarrow> (exn + string option) \<times> log" where
  "get_image_info w image_title =
     (case requests_get_json w commons_api_url (get_image_info_params image_title) of
        Inl e \<Rightarrow> (Inl e, [])
      | Inr r \<Rightarrow> get_image_info_of image_title r)"

section \<open>The asset downloader\<close>

definition WIKI_USERAGENT :: string where
  "WIKI_USERAGENT = ''Anki Catalunya (https://github.com/CaiClone)''"

text \<open>The request of \<open>download_svg\<close>, with its user-agent header.\<close>

definition download_request :: "world \<Rightarrow> string option \<Rightarrow> exn + http_response" where
  "download_request w url = requests_get w url [(''User-Agent'', WIKI_USERAGENT)]"

text \<open>
  The \<open>try\<close> block of \<open>download_svg\<close>: the exception it ends with, if any, and the files
  as it leaves them.  Opening a file for writing creates it empty; a write that fails
  leaves in it the bytes that were written before.
\<close>

definition download_svg_try ::
  "world \<Rightarrow> string option \<Rightarrow> string \<Rightarrow> fs \<Rightarrow> exn option \<times> fs" where
  "download_svg_try w url filename files =
     (case download_request w url of
        Inl e \<Rightarrow> (Some e, files)
      | Inr response \<Rightarrow>
          (case raise_for_status response of
             Some e \<Rightarrow> (Some e, files)
           | None \<Rightarrow>
               (case open_wb w filename of
                  Some e \<Rightarrow> (Some e, files)
                | None \<Rightarrow>
                    (case file_write w filename (content response) of
                       Some (e, n) \<Rightarrow>
                         (Some e, files(filename \<mapsto> take n (content response)))
                     | None \<Rightarrow> (None, files(filename \<mapsto> content response))))))"

text \<open>
  \<open>download_svg\<close> with its \<open>except Exception\<close>: the first component is the exception
  that reaches the caller, if any.
\<close>

definition download_svg ::
  "world \<Rightarrow> string option \<Rightarrow> string \<Rightarrow> fs \<Rightarrow> exn option \<times> fs \<times> log" where
  "download_svg w url filename files =
     (case download_svg_try w url filename files of
        (Some e, files') \<Rightarrow>
          (None, files', [(ERROR, ''Failed to download '' @ str url @ '': '' @ message e)])
      | (None, files') \<Rightarrow> (None, files', []))"

section \<open>The page scraper\<close>

text \<open>
  The parts of \<open>BeautifulSoup\<close> that the scraper calls.  \<open>descendants\<close> lists the nodes
  below a tag in document order; \<open>children_with_parent\<close> lists the same nodes, each with
  its \<open>.parent\<close>.  \<open>tag.string\<close> is the string, of any class, that is the only child of
  the tag, or the \<open>.string\<close> of the tag that is its only child; a tag with no child or
  with several children has none.
\<close>

fun descendants :: "node \<Rightarrow> node list" where
  "descendants (NavigableString k s) = []"
| "descendants (Tag n cs) = concat (map (\<lambda>c. c # descendants c) cs)"

fun children_with_parent :: "node \<Rightarrow> (node \<times> node) list" where
  "children_with_parent (NavigableString k s) = []"
| "children_with_parent (Tag n cs) =
     concat (map (\<lambda>c. (Tag n cs, c) # children_with_parent c) cs)"

fun string_of :: "node \<Rightarrow> string option" where
  "string_of (NavigableString k s) = Some s"
| "string_of (Tag n cs) = (case cs of [c] \<Rightarrow> string_of c | _ \<Rightarrow> None)"

text \<open>
  \<open>tag.text\<close>, for a tag that is not one of the string containers \<open>style\<close>, \<open>script\<close>,
  \<open>template\<close>, \<open>rt\<close> and \<open>rp\<close> (the scraper takes it of an \<open>a\<close> tag): \<open>_all_strings\<close> goes
  through the descendants of the tag and keeps the strings whose class is exactly
  \<open>NavigableString\<close> or \<open>CData\<close>, and \<open>get_text\<close> joins them with the empty separator.
  Comments and the text of scripts and style sheets are left out.
\<close>

definition interesting_string_types :: "string_class list" where
  "interesting_string_types = [PlainString, CData]"

definition all_strings :: "node \<Rightarrow> string list" where
  "all_strings tag =
     concat (map (\<lambda>descendant.
                    case descendant of
                      NavigableString k s \<Rightarrow>
                        if k \<in> set interesting_string_types then [s] else []
                    | Tag n cs \<Rightarrow> [])
               (descendants tag))"

definition get_text :: "node \<Rightarrow> string" where
  "get_text tag = concat (all_strings tag)"

definition is_tag :: "string \<Rightarrow> node \<Rightarrow> bool" where
  "is_tag n el = (case el of NavigableString k s \<Rightarrow> False | Tag m cs \<Rightarrow> m = n)"

text \<open>The test of \<open>soup.find('th', string='Capital')\<close> on one node.\<close>

definition is_capital_th :: "node \<Rightarrow> bool" where
  "is_capital_th el \<longleftrightarrow> is_tag ''th'' el \<and> string_of el = Some ''Capital''"

text \<open>
  \<open>soup.find('th', string='Capital').parent\<close> when the search finds a cell, \<open>None\<close>
  otherwise: the cell is the first match in document order.
\<close>

definition capital_row :: "node \<Rightarrow> node option" where
  "capital_row soup =
     (case find (\<lambda>(parent, el). is_capital_th el) (children_with_parent soup) of
        None \<Rightarrow> None
      | Some (parent, el) \<Rightarrow> Some parent)"

text \<open>The body of \<open>get_comarca_capital_from_html\<close> from the parsed document on.\<close>

definition capital_from_soup :: "node \<Rightarrow> string" where
  "capital_from_soup soup =
     (case capital_row soup of
        Some row \<Rightarrow>
          (case find (is_tag ''a'') (descendants row) of
             Some capital_link \<Rightarrow> get_text capital_link
           | None \<Rightarrow> ''Capital not found in the expected format'')
      | None \<Rightarrow> ''Capital row not found'')"

definition get_comarca_capital_from_html :: "world \<Rightarrow> string \<Rightarrow> exn + string" where
  "get_comarca_capital_from_html w page_url =
     bind (requests_get w (Some page_url) []) (\<lambda>response.
       Inr (capital_from_soup (html_parser w (content response))))"

section \<open>The data assembly orchestrator\<close>

text \<open>The comprehension \<open>[get_image_info(image) for image in ...]\<close> over the kept titles.\<close>

fun get_image_infos :: "world \<Rightarrow> string list \<Rightarrow> (exn + string option list) \<times> log" where
  "get_image_infos w [] = (Inr [], [])"
| "get_image_infos w (img # rest) =
     (case get_image_info w img of
        (Inl e, lg) \<Rightarrow> (Inl e, lg)
      | (Inr u, lg) \<Rightarrow>
          (case get_image_infos w rest of
             (Inl e, lg') \<Rightarrow> (Inl e, lg @ lg')
           | (Inr us, lg') \<Rightarrow> (Inr (u # us), lg @ lg')))"

text \<open>The loop of \<open>get_comarca_data\<close> over the two media kinds.\<close>

fun media_loop ::
  "world \<Rightarrow> string \<Rightarrow> string \<Rightarrow> (string option list \<times> string) list \<Rightarrow> ComarcaData \<Rightarrow> fs
     \<Rightarrow> (exn + ComarcaData) \<times> fs \<times> log" where
  "media_loop w comarca_name comarca_path [] data files = (Inr data, files, [])"
| "media_loop w comarca_name comarca_path ((urls, field) # rest) data files =
     (case urls of
        [] \<Rightarrow>
          (case media_loop w comarca_name comarca_path rest data files of
             (r, files', lg) \<Rightarrow>
               (r, files', (WARNING, ''No '' @ field @ '' found for '' @ comarca_name) # lg))
      | url # others \<Rightarrow>
          (let path = ''imgs/'' @ comarca_path @ ''_'' @ field @ ''.svg'' in
           case download_svg w url path files of
             (Some e, files', lg) \<Rightarrow> (Inl e, files', lg)
           | (None, files', lg) \<Rightarrow>
               (case media_loop w comarca_name comarca_path rest
                       (setattr data (field @ ''_url'') path) files' of
                  (r, files'', lg') \<Rightarrow> (r, files'', lg @ lg'))))"

definition get_comarca_data ::
  "world \<Rightarrow> string \<Rightarrow> fs \<Rightarrow> (exn + ComarcaData) \<times> fs \<times> log" where
  "get_comarca_data w comarca_name files =
     (case get_image_titles w comarca_name of
        Inl e \<Rightarrow> (Inl e, files, [])
      | Inr imgs \<Rightarrow>
     (case get_image_infos w (filter (suffix ''a Catalunya.svg'') imgs) of
        (Inl e, lg1) \<Rightarrow> (Inl e, files, lg1)
      | (Inr map_urls, lg1) \<Rightarrow>
     (case get_image_infos w (filter (sublist ''Coat'') imgs) of
        (Inl e, lg2) \<Rightarrow> (Inl e, files, lg1 @ lg2)
      | (Inr escut_urls, lg2) \<Rightarrow>
     (let comarca_path = replace '' '' ''_'' comarca_name in
      case get_comarca_capital_from_html w (''https://ca.wikipedia.org/wiki/'' @ comarca_path) of
        Inl e \<Rightarrow> (Inl e, files, lg1 @ lg2)
      | Inr cap \<Rightarrow>
     (case media_loop w comarca_name comarca_path
             [(map_urls, ''map''), (escut_urls, ''escut'')]
             (new_ComarcaData comarca_name (Some cap)) files of
        (r, files', lg3) \<Rightarrow> (r, files', lg1 @ lg2 @ lg3))))))"

section \<open>The validator\<close>

text \<open>\<open>not v\<close> for an \<open>Optional[str]\<close>: \<open>None\<close> and the empty string are false.\<close>

definition falsy :: "string option \<Rightarrow> bool" where
  "falsy v \<longleftrightarrow> v = None \<or> v = Some []"

fun join :: "string \<Rightarrow> string list \<Rightarrow> string" where
  "join sep [] = []"
| "join sep [x] = x"
| "join sep (x # y # ys) = x @ sep @ join sep (y # ys)"

text \<open>
  The comprehension \<open>[comarca.comarca for comarca in data if not getattr(comarca, field)]\<close>.
\<close>

fun missing_comarques :: "string \<Rightarrow> ComarcaData list \<Rightarrow> exn + string list" where
  "missing_comarques field [] = Inr []"
| "missing_comarques field (c # rest) =
     bind (getattr c field) (\<lambda>v.
     bind (missing_comarques field rest) (\<lambda>ms.
       Inr (if falsy v then comarca c # ms else ms)))"

fun validate_loop ::
  "(string \<times> bool) list \<Rightarrow> ComarcaData list \<Rightarrow> (exn + bool) \<times> log" where
  "validate_loop [] data = (Inr True, [])"
| "validate_loop ((field, required) # rest) data =
     (case missing_comarques field data of
        Inl e \<Rightarrow> (Inl e, [])
      | Inr missing \<Rightarrow>
          (let msg = ''Missing '' @ field @ '' for comarques: '' @ join '','' missing in
           if missing \<noteq> [] \<and> required then (Inr False, [(ERROR, msg)])
           else if missing \<noteq> [] then
             (case validate_loop rest data of (r, lg) \<Rightarrow> (r, (WARNING, msg) # lg))
           else validate_loop rest data))"

definition validate_data :: "ComarcaData list \<Rightarrow> (exn + bool) \<times> log" where
  "validate_data data =
     validate_loop [(''capital'', True), (''map_url'', True), (''escut_url'', False)] data"

section \<open>The deck builder\<close>

text \<open>
  \<open>Path(p).name\<close> of \<open>pathlib\<close> on a POSIX system: the last component of the path that is
  neither empty nor a single dot, the empty string when there is none; \<open>Path(None)\<close>
  raises \<open>TypeError\<close>, with a text that differs between versions of Python and that
  nothing in the program reads.
\<close>

definition path_name :: "string \<Rightarrow> string" where
  "path_name p =
     (case filter (\<lambda>x. x \<noteq> [] \<and> x \<noteq> ''.'') (split CHR ''/'' p) of
        [] \<Rightarrow> []
      | x # xs \<Rightarrow> last (x # xs))"

definition Path_name :: "string option \<Rightarrow> exn + string" where
  "Path_name p =
     (case p of
        None \<Rightarrow>
          Inl (Exn TypeError ''expected str, bytes or os.PathLike object, not NoneType'')
      | Some s \<Rightarrow> Inr (path_name s))"

definition img_tag :: "string \<Rightarrow> string" where
  "img_tag src = ''<img src='' @ [CHR 0x22] @ src @ [CHR 0x22] @ ''>''"

text \<open>A \<open>genanki.Note\<close>: the model it was built with and its list of field values.\<close>

datatype 'm Note = Note (model: 'm) (fields: "string option list")

fun get_notes :: "ComarcaData list \<Rightarrow> 'm \<Rightarrow> exn + 'm Note list" where
  "get_notes [] m = Inr []"
| "get_notes (c # rest) m =
     bind (Path_name (escut_url c)) (\<lambda>escut.
     bind (Path_name (map_url c)) (\<lambda>mp.
     bind (get_notes rest m) (\<lambda>notes.
       Inr (Note m [capital c, Some [], Some [], Some (comarca c), Some [],
                    Some (img_tag escut), Some [], Some (img_tag mp)] # notes))))"

section \<open>The alternate client of \<open>WikiApi.py\<close>\<close>

text \<open>
  Modelled from the spec: the class \<open>ComarcaPage\<close>, which \<open>WikiApi.py\<close> imports from
  \<open>models\<close> and \<open>models.py\<close> does not declare.  It is the Subregion Record of the
  specification, built from the comarca name alone with every other field unset.
\<close>

type_synonym ComarcaPage = ComarcaData

definition new_ComarcaPage :: "string \<Rightarrow> ComarcaPage" where
  "new_ComarcaPage comarca_name = new_ComarcaData comarca_name None"

definition get_comarques :: "WikipediaPage list \<Rightarrow> ComarcaPage list" where
  "get_comarques comarques_pages =
     (let page_categories =
            filter (\<lambda>page. ns page = CATEGORY \<and> is_comarca page) comarques_pages
      in map (\<lambda>page. new_ComarcaPage (last (split CHR '':'' (title page)))) page_categories)"

text \<open>
  The decorator \<open>catch_http_errors(default_return)\<close> around a call of the function named
  \<open>func_name\<close>: one of the four classes of \<open>requests.exceptions\<close> is logged and replaced
  by the default, any other exception goes on to the caller.
\<close>

definition is_http_error :: "exn \<Rightarrow> bool" where
  "is_http_error e \<longleftrightarrow> kind e \<in> {HTTPError, ConnectionError, Timeout, RequestException}"

definition catch_http_errors ::
  "'a \<Rightarrow> string \<Rightarrow> (exn + 'a) \<times> log \<Rightarrow> (exn + 'a) \<times> log" where
  "catch_http_errors default_return func_name r =
     (case r of
        (Inl http_exc, lg) \<Rightarrow>
          if is_http_error http_exc
          then (Inr default_return,
                lg @ [(ERROR, ''HTTP exception in '' @ func_name @ '': '' @ message http_exc)])
          else (Inl http_exc, lg)
      | (Inr v, lg) \<Rightarrow> (Inr v, lg))"

text \<open>
  \<open>WikimediaAPIHandler.get_image_info\<close>.  After the request the method evaluates
  \<open>response.text\<close> on the decoded JSON, a dictionary, which raises \<open>AttributeError\<close>; the
  statements after it are never reached.
\<close>

definition WikimediaAPIHandler_get_image_info ::
  "world \<Rightarrow> string \<Rightarrow> (exn + string option) \<times> log" where
  "WikimediaAPIHandler_get_image_info w image_title =
     catch_http_errors None ''get_image_info''
       (case requests_get_json w commons_api_url (get_image_info_params image_title) of
          Inl e \<Rightarrow> (Inl e, [])
        | Inr r \<Rightarrow>
            (Inl (Exn AttributeError
                   (repr ''dict'' @ '' object has no attribute '' @ repr ''text'')), []))"

text \<open>The comprehension \<open>[image["title"] for image in images]\<close>.\<close>

fun all_titles :: "string dict list \<Rightarrow> exn + string list" where
  "all_titles [] = Inr []"
| "all_titles (img # rest) =
     bind (getitem img ''title'') (\<lambda>t. bind (all_titles rest) (\<lambda>ts. Inr (t # ts)))"

definition WikimediaAPIHandler_get_image_titles_of ::
  "string \<Rightarrow> response \<Rightarrow> (exn + string list) \<times> log" where
  "WikimediaAPIHandler_get_image_titles_of page_title r =
     (case first_page r of
        Inl e \<Rightarrow> (Inl e, [])
      | Inr page \<Rightarrow>
          (case images page of
             Some imgs \<Rightarrow> (all_titles imgs, [])
           | None \<Rightarrow> (Inr [], [(WARNING, ''No images found for '' @ page_title)])))"

definition WikimediaAPIHandler_get_image_titles ::
  "world \<Rightarrow> string \<Rightarrow> (exn + string list) \<times> log" where
  "WikimediaAPIHandler_get_image_titles w page_title =
     catch_http_errors [] ''get_image_titles''
       (case requests_get_json w wikipedia_api_url (get_image_titles_params page_title) of
          Inl e \<Rightarrow> (Inl e, [])
        | Inr r \<Rightarrow> WikimediaAPIHandler_get_image_titles_of page_title r)"

text \<open>
  The loop of \<open>get_images_for_comarca\<close> over the image titles.  The record is changed in
  place, so the changes made before an exception stay: the loop returns the exception
  it ends with, if any, the record and the log.
\<close>

fun images_loop ::
  "world \<Rightarrow> string list \<Rightarrow> ComarcaPage \<Rightarrow> exn option \<times> ComarcaPage \<times> log" where
  "images_loop w [] c = (None, c, [])"
| "images_loop w (t # rest) c =
     (if sublist ''Mapa'' t then
        (case WikimediaAPIHandler_get_image_info w t of
           (Inl e, lg) \<Rightarrow> (Some e, c, lg)
         | (Inr u, lg) \<Rightarrow>
             (case images_loop w rest (c\<lparr>map_url := u\<rparr>) of
                (r, c', lg') \<Rightarrow> (r, c', lg @ lg')))
      else if sublist ''Escut'' t \<or> sublist ''Coat of arms'' t then
        (case WikimediaAPIHandler_get_image_info w t of
           (Inl e, lg) \<Rightarrow> (Some e, c, lg)
         | (Inr u, lg) \<Rightarrow>
             (case images_loop w rest (c\<lparr>escut_url := u\<rparr>) of
                (r, c', lg') \<Rightarrow> (r, c', lg @ lg')))
      else images_loop w rest c)"

text \<open>
  \<open>get_images_for_comarca\<close>: what it returns (\<open>None\<close> at the end of the loop, the empty
  list from the decorator) or raises, the record as it leaves it, and the log.
\<close>

definition get_images_for_comarca ::
  "world \<Rightarrow> ComarcaPage \<Rightarrow> ((exn + string list option) \<times> log) \<times> ComarcaPage" where
  "get_images_for_comarca w c =
     (case WikimediaAPIHandler_get_image_titles w (comarca c) of
        (Inl e, lg) \<Rightarrow>
          (catch_http_errors (Some []) ''get_images_for_comarca'' (Inl e, lg), c)
      | (Inr image_titles, lg) \<Rightarrow>
          (case images_loop w image_titles c of
             (Some e, c', lg') \<Rightarrow>
               (catch_http_errors (Some []) ''get_images_for_comarca'' (Inl e, lg @ lg'), c')
           | (None, c', lg') \<Rightarrow>
               (catch_http_errors (Some []) ''get_images_for_comarca'' (Inr None, lg @ lg'),
                c')))"

section \<open>Statements of the specification used for comparison\<close>

text \<open>
  The specification's rule for the category members that are kept: the namespace marks
  the member as a category, its title does not contain "de catalunya" whatever the
  case of the letters, and one of its parent categories has a title that is
  "categoria:comarques de catalunya" whatever the case of the letters.
\<close>

definition spec_keeps_member :: "WikipediaPage \<Rightarrow> bool" where
  "spec_keeps_member page \<longleftrightarrow>
     ns page = CATEGORY \<and>
     \<not> sublist ''de catalunya'' (lower (title page)) \<and>
     (\<exists>c \<in> set (categories page). lower (title c) = ''categoria:comarques de catalunya'')"

text \<open>
  The comarca names of the records on which a field is missing (unset or empty), in
  the order of the records.
\<close>

definition spec_missing ::
  "(ComarcaData \<Rightarrow> string option) \<Rightarrow> ComarcaData list \<Rightarrow> string list" where
  "spec_missing field data = map comarca (filter (\<lambda>c. falsy (field c)) data)"

text \<open>
  The eight field values of the note of a record whose \<open>escut_url\<close> and \<open>map_url\<close> are
  set, in schema order.
\<close>

definition spec_note_fields :: "ComarcaData \<Rightarrow> string option list" where
  "spec_note_fields c =
     [capital c, Some [], Some [], Some (comarca c), Some [],
      Some (''<img src='' @ [CHR 0x22] @ path_name (the (escut_url c)) @ [CHR 0x22] @ ''>''),
      Some [],
      Some (''<img src='' @ [CHR 0x22] @ path_name (the (map_url c)) @ [CHR 0x22] @ ''>'')]"

text \<open>
  The specification's normalisation of an image title: a leading "Fitxer:" becomes
  "File:", and nothing else changes.
\<close>

definition spec_rewrite_leading_prefix :: "string \<Rightarrow> string" where
  "spec_rewrite_leading_prefix image_title =
     (if prefix ''Fitxer:'' image_title
      then ''File:'' @ drop (length ''Fitxer:'') image_title
      else image_title)"


section \<open>Example inputs\<close>

definition ex_parent :: WikipediaPage where
  "ex_parent = WikipediaPage ''Categoria:Comarques de Catalunya'' 14 []"

definition ex_members :: "WikipediaPage list" where
  "ex_members =
     [WikipediaPage ''Categoria:Bages'' 14 [ex_parent],
      WikipediaPage ''Bages'' 0 [ex_parent],
      WikipediaPage ''Categoria:Llistes de comarques de Catalunya'' 14 [ex_parent],
      WikipediaPage ''Categoria:Valls'' 14 [WikipediaPage ''Categoria:Municipis'' 14 []]]"

definition ex_bages :: ComarcaData where
  "ex_bages =
     \<lparr>comarca = ''Bages'', capital = Some ''Manresa'',
      map_url = Some ''imgs/Bages_map.svg'', escut_url = Some ''imgs/Bages_escut.svg''\<rparr>"

definition ex_no_escut :: ComarcaData where
  "ex_no_escut =
     \<lparr>comarca = ''Moianes'', capital = Some ''Moia'',
      map_url = Some ''imgs/Moianes_map.svg'', escut_url = None\<rparr>"

definition ex_no_map :: ComarcaData where
  "ex_no_map =
     \<lparr>comarca = ''Garraf'', capital = Some ''Vilanova i la Geltru'',
      map_url = None, escut_url = Some ''imgs/Garraf_escut.svg''\<rparr>"

definition ex_no_capital :: ComarcaData where
  "ex_no_capital =
     \<lparr>comarca = ''Anoia'', capital = None,
      map_url = Some ''imgs/Anoia_map.svg'', escut_url = Some ''imgs/Anoia_escut.svg''\<rparr>"

definition ex_row :: node where
  "ex_row =
     Tag ''tr''
       [Tag ''th'' [NavigableString PlainString ''Capital''],
        Tag ''td'' [Tag ''a'' [NavigableString PlainString ''Manresa'']]]"

definition ex_soup :: node where
  "ex_soup =
     Tag ''[document]''
       [Tag ''table'' [Tag ''tr'' [Tag ''th'' [NavigableString PlainString ''Poblacio'']], ex_row]]"







definition ex_response_no_images :: response where
  "ex_response_no_images =
     \<lparr>query = Some \<lparr>pages = Some [(''-1'', \<lparr>images = None, imageinfo = None\<rparr>)]\<rparr>\<rparr>"

definition ex_response_images :: response where
  "ex_response_images =
     \<lparr>query = Some \<lparr>pages = Some [(''8559'',
        \<lparr>images =
           Some [[(''ns'', ''6''), (''title'', ''Fitxer:Bages Mapa.svg'')],
                 [(''ns'', ''6''),
                  (''title'', ''Fitxer:Localitzacio del Bages a Catalunya.svg'')],
                 [(''ns'', ''6''), (''title'', ''Fitxer:Escut del Bages.png'')]],
         imageinfo = None\<rparr>)]\<rparr>\<rparr>"

definition ex_response_imageinfo :: response where
  "ex_response_imageinfo =
     \<lparr>query = Some \<lparr>pages = Some [(''1234'',
        \<lparr>images = None,
         imageinfo = Some [[(''url'', ''https://upload.wikimedia.org/Bages.svg'')]]\<rparr>)]\<rparr>\<rparr>"

text \<open>A world where the page exists without images and nothing else can be reached.\<close>

definition ex_world_no_images :: world where
  "ex_world_no_images =
     \<lparr>requests_get_json = (\<lambda>url params. Inr ex_response_no_images),
      requests_get = (\<lambda>url headers. Inl (Exn ConnectionError ''unreachable'')),
      html_parser = (\<lambda>content. Tag ''[document]'' []),
      open_wb = (\<lambda>filename. None),
      file_write = (\<lambda>filename content. None)\<rparr>"

text \<open>
  A world where the encyclopedia answers, the media repository knows the files, and
  their download fails.
\<close>

definition ex_world :: world where
  "ex_world =
     \<lparr>requests_get_json =
        (\<lambda>url params. if url = wikipedia_api_url then Inr ex_response_images
                       else Inr ex_response_imageinfo),
      requests_get =
        (\<lambda>url headers.
           if url = Some ''https://ca.wikipedia.org/wiki/Bages''
           then Inr \<lparr>raise_for_status = None, content = ''<html>''\<rparr>
           else Inl (Exn ConnectionError ''unreachable'')),
      html_parser = (\<lambda>content. ex_soup),
      open_wb = (\<lambda>filename. None),
      file_write = (\<lambda>filename content. None)\<rparr>"

text \<open>A world where the media repository cannot be reached.\<close>

definition ex_world_commons_down :: world where
  "ex_world_commons_down =
     ex_world\<lparr>requests_get_json :=
        (\<lambda>url params. if url = wikipedia_api_url then Inr ex_response_images
                       else Inl (Exn ConnectionError ''unreachable''))\<rparr>"

text \<open>
  A world where the download arrives and the disk is full: the destination can be
  created, and no byte of the body reaches it.
\<close>

definition ex_world_disk_full :: world where
  "ex_world_disk_full =
     \<lparr>requests_get_json = (\<lambda>url params. Inr ex_response_imageinfo),
      requests_get =
        (\<lambda>url headers. Inr \<lparr>raise_for_status = None, content = ''<svg/>''\<rparr>),
      html_parser = (\<lambda>content. ex_soup),
      open_wb = (\<lambda>filename. None),
      file_write =
        (\<lambda>filename content. Some (Exn OSError ''[Errno 28] No space left on device'', 0))\<rparr>"

section \<open>The category filter\<close>

lemma is_comarca_loop_iff:
  "is_comarca_loop cs \<longleftrightarrow>
     (\<exists>c \<in> set cs. lower (title c) = ''categoria:comarques de catalunya'')"
  by (induction cs) auto

lemma is_comarca_iff:
  "is_comarca page \<longleftrightarrow>
     \<not> sublist ''de catalunya'' (lower (title page)) \<and>
     (\<exists>c \<in> set (categories page). lower (title c) = ''categoria:comarques de catalunya'')"
  by (simp add: is_comarca_def is_comarca_loop_iff)

text \<open>
  Claim C3.  Of the category members the service returns, the list-comarques operation
  keeps exactly those for which the three conditions hold together (category
  namespace, no "de catalunya" in the title, a parent category titled
  "categoria:comarques de catalunya", both without regard to case), in the order of the
  members; the alternate client keeps the same members and builds its records from the
  part of their titles after the last colon.
\<close>

theorem list_comarques_keeps_exactly:
  "get_comarques_categories members = filter spec_keeps_member members \<and>
   get_comarques members =
     map (\<lambda>page. new_ComarcaPage (last (split CHR '':'' (title page))))
       (filter spec_keeps_member members)"
proof -
  have "(\<lambda>page. ns page = CATEGORY \<and> is_comarca page) = spec_keeps_member"
    by (rule ext) (simp add: spec_keeps_member_def is_comarca_iff)
  then show ?thesis
    by (simp add: get_comarques_categories_def get_comarques_def)
qed

lemma ex_members_kept:
  "filter spec_keeps_member ex_members = [WikipediaPage ''Categoria:Bages'' 14 [ex_parent]]"
  by code_simp

theorem list_comarques_keeps_exactly_witness:
  "get_comarques_categories ex_members = [WikipediaPage ''Categoria:Bages'' 14 [ex_parent]] \<and>
   get_comarques ex_members = [new_ComarcaPage ''Bages'']"
  using list_comarques_keeps_exactly [of ex_members] by (simp add: ex_members_kept)

section \<open>The validator's verdict\<close>

lemma missing_comarques_capital:
  "missing_comarques ''capital'' data = Inr (spec_missing capital data)"
  by (induction data) (simp_all add: bind_def getattr_def spec_missing_def)

lemma missing_comarques_map_url:
  "missing_comarques ''map_url'' data = Inr (spec_missing map_url data)"
  by (induction data) (simp_all add: bind_def getattr_def spec_missing_def)

lemma missing_comarques_escut_url:
  "missing_comarques ''escut_url'' data = Inr (spec_missing escut_url data)"
  by (induction data) (simp_all add: bind_def getattr_def spec_missing_def)

lemma spec_missing_empty_iff:
  "spec_missing field data = [] \<longleftrightarrow> (\<forall>c \<in> set data. \<not> falsy (field c))"
  by (simp add: spec_missing_def filter_empty_conv)

lemma validate_data_cases:
  "validate_data data =
     (if spec_missing capital data \<noteq> [] then
        (Inr False,
         [(ERROR, ''Missing capital for comarques: '' @ join '','' (spec_missing capital data))])
      else if spec_missing map_url data \<noteq> [] then
        (Inr False,
         [(ERROR, ''Missing map_url for comarques: '' @ join '','' (spec_missing map_url data))])
      else if spec_missing escut_url data \<noteq> [] then
        (Inr True,
         [(WARNING,
           ''Missing escut_url for comarques: '' @ join '','' (spec_missing escut_url data))])
      else (Inr True, []))"
  by (simp add: validate_data_def missing_comarques_capital missing_comarques_map_url
      missing_comarques_escut_url Let_def)

lemma validate_data_ok_iff:
  "fst (validate_data data) = Inr True \<longleftrightarrow>
     (\<forall>c \<in> set data. \<not> falsy (capital c) \<and> \<not> falsy (map_url c))"
proof -
  have "fst (validate_data data) = Inr True \<longleftrightarrow>
          spec_missing capital data = [] \<and> spec_missing map_url data = []"
    by (subst validate_data_cases) simp
  then show ?thesis
    by (auto simp: spec_missing_empty_iff)
qed

lemma validate_data_total: "fst (validate_data data) \<in> {Inr True, Inr False}"
  by (subst validate_data_cases) simp

text \<open>
  Claim C2.  The validate operation returns success exactly when every record has a
  truthy \<open>capital\<close> and a truthy \<open>map_url\<close>, and failure otherwise; it never raises.  It
  checks \<open>capital\<close>, then \<open>map_url\<close>, then \<open>escut_url\<close>: a gap in \<open>capital\<close> is logged as
  the only error, whatever the other fields; otherwise a gap in \<open>map_url\<close> is logged as
  the only error; otherwise a gap in \<open>escut_url\<close> is logged as a warning and the result
  is success.  Each message lists the comarca names joined by commas.
\<close>

theorem validate_data_spec:
  "(fst (validate_data data) = Inr True \<longleftrightarrow>
      (\<forall>c \<in> set data. \<not> falsy (capital c) \<and> \<not> falsy (map_url c))) \<and>
   (fst (validate_data data) = Inr False \<longleftrightarrow>
      \<not> (\<forall>c \<in> set data. \<not> falsy (capital c) \<and> \<not> falsy (map_url c))) \<and>
   validate_data data =
     (if spec_missing capital data \<noteq> [] then
        (Inr False,
         [(ERROR, ''Missing capital for comarques: '' @ join '','' (spec_missing capital data))])
      else if spec_missing map_url data \<noteq> [] then
        (Inr False,
         [(ERROR, ''Missing map_url for comarques: '' @ join '','' (spec_missing map_url data))])
      else if spec_missing escut_url data \<noteq> [] then
        (Inr True,
         [(WARNING,
           ''Missing escut_url for comarques: '' @ join '','' (spec_missing escut_url data))])
      else (Inr True, []))"
proof (intro conjI)
  show "fst (validate_data data) = Inr True \<longleftrightarrow>
          (\<forall>c \<in> set data. \<not> falsy (capital c) \<and> \<not> falsy (map_url c))"
    by (rule validate_data_ok_iff)
  show "fst (validate_data data) = Inr False \<longleftrightarrow>
          \<not> (\<forall>c \<in> set data. \<not> falsy (capital c) \<and> \<not> falsy (map_url c))"
    using validate_data_ok_iff [of data] validate_data_total [of data] by auto
qed (rule validate_data_cases)

theorem validate_data_spec_witness:
  "validate_data [ex_no_map, ex_bages, ex_no_capital] =
     (Inr False, [(ERROR, ''Missing capital for comarques: Anoia'')]) \<and>
   validate_data [ex_bages, ex_no_escut] =
     (Inr True, [(WARNING, ''Missing escut_url for comarques: Moianes'')]) \<and>
   validate_data [ex_no_map, ex_bages, ex_no_map] =
     (Inr False, [(ERROR, ''Missing map_url for comarques: Garraf,Garraf'')])"
  using validate_data_spec [of "[ex_no_map, ex_bages, ex_no_capital]"]
    validate_data_spec [of "[ex_bages, ex_no_escut]"]
    validate_data_spec [of "[ex_no_map, ex_bages, ex_no_map]"]
  by (simp add: spec_missing_def falsy_def ex_bages_def ex_no_map_def ex_no_capital_def
      ex_no_escut_def)

section \<open>The notes\<close>

lemma path_name_bages:
  "path_name ''imgs/Bages_map.svg'' = ''Bages_map.svg''"
  "path_name ''imgs/Bages_escut.svg'' = ''Bages_escut.svg''"
  by code_simp+

lemma get_notes_populated:
  "\<forall>c \<in> set data. map_url c \<noteq> None \<and> escut_url c \<noteq> None \<Longrightarrow>
   get_notes data m = Inr (map (\<lambda>c. Note m (spec_note_fields c)) data)"
  by (induction data) (auto simp: bind_def Path_name_def img_tag_def spec_note_fields_def)

lemma get_notes_raises_TypeError:
  "get_notes data m = Inl e \<Longrightarrow> kind e = TypeError"
  by (induction data arbitrary: e)
     (auto simp: bind_def Path_name_def split: sum.splits option.splits)

lemma get_notes_returns:
  "get_notes data m = Inr res \<Longrightarrow> \<forall>c \<in> set data. escut_url c \<noteq> None \<and> map_url c \<noteq> None"
  by (induction data arbitrary: res)
     (auto simp: bind_def Path_name_def split: sum.splits option.splits)

lemma get_notes_unset:
  assumes "\<exists>c \<in> set data. escut_url c = None \<or> map_url c = None"
  shows "\<exists>msg. get_notes data m = Inl (Exn TypeError msg)"
proof (cases "get_notes data m")
  case (Inl e)
  then have "kind e = TypeError" by (rule get_notes_raises_TypeError)
  with Inl show ?thesis by (cases e) auto
next
  case (Inr res)
  then have "\<forall>c \<in> set data. escut_url c \<noteq> None \<and> map_url c \<noteq> None"
    by (rule get_notes_returns)
  with assms have False by blast
  then show ?thesis ..
qed

text \<open>
  Claim C1.  For records with all four fields set, the note-building operation
  produces one note per record, in order, whose eight field values are the capital,
  the empty string twice, the comarca, the empty string, the image tag of the base
  name of \<open>escut_url\<close>, the empty string and the image tag of the base name of
  \<open>map_url\<close>; for the record of Bages the fields are exactly those of the
  specification's example.
\<close>

theorem get_notes_fields:
  "((\<forall>c \<in> set data. capital c \<noteq> None \<and> map_url c \<noteq> None \<and> escut_url c \<noteq> None) \<longrightarrow>
      get_notes data m = Inr (map (\<lambda>c. Note m (spec_note_fields c)) data)) \<and>
   get_notes [ex_bages] m =
     Inr [Note m [Some ''Manresa'', Some [], Some [], Some ''Bages'', Some [],
                  Some (''<img src='' @ [CHR 0x22] @ ''Bages_escut.svg'' @ [CHR 0x22] @ ''>''),
                  Some [],
                  Some (''<img src='' @ [CHR 0x22] @ ''Bages_map.svg'' @ [CHR 0x22] @ ''>'')]]"
proof
  show "(\<forall>c \<in> set data. capital c \<noteq> None \<and> map_url c \<noteq> None \<and> escut_url c \<noteq> None) \<longrightarrow>
          get_notes data m = Inr (map (\<lambda>c. Note m (spec_note_fields c)) data)"
    by (simp add: get_notes_populated)
  show "get_notes [ex_bages] m =
     Inr [Note m [Some ''Manresa'', Some [], Some [], Some ''Bages'', Some [],
                  Some (''<img src='' @ [CHR 0x22] @ ''Bages_escut.svg'' @ [CHR 0x22] @ ''>''),
                  Some [],
                  Some (''<img src='' @ [CHR 0x22] @ ''Bages_map.svg'' @ [CHR 0x22] @ ''>'')]]"
    by (simp add: ex_bages_def bind_def Path_name_def img_tag_def path_name_bages)
qed

theorem get_notes_fields_witness:
  "capital ex_bages \<noteq> None \<and> map_url ex_bages \<noteq> None \<and> escut_url ex_bages \<noteq> None \<and>
   get_notes [ex_bages, ex_bages] (1529025036 :: int) =
     Inr [Note 1529025036 (spec_note_fields ex_bages),
          Note 1529025036 (spec_note_fields ex_bages)] \<and>
   spec_note_fields ex_bages =
     [Some ''Manresa'', Some [], Some [], Some ''Bages'', Some [],
      Some (''<img src='' @ [CHR 0x22] @ ''Bages_escut.svg'' @ [CHR 0x22] @ ''>''),
      Some [],
      Some (''<img src='' @ [CHR 0x22] @ ''Bages_map.svg'' @ [CHR 0x22] @ ''>'')]"
proof -
  have populated: "capital ex_bages \<noteq> None \<and> map_url ex_bages \<noteq> None \<and> escut_url ex_bages \<noteq> None"
    by (simp add: ex_bages_def)
  then have "\<forall>c \<in> set [ex_bages, ex_bages].
               capital c \<noteq> None \<and> map_url c \<noteq> None \<and> escut_url c \<noteq> None"
    by simp
  with get_notes_fields [of "[ex_bages, ex_bages]" "1529025036 :: int"]
  have "get_notes [ex_bages, ex_bages] (1529025036 :: int) =
          Inr (map (\<lambda>c. Note 1529025036 (spec_note_fields c)) [ex_bages, ex_bages])"
    by blast
  then have made: "get_notes [ex_bages, ex_bages] (1529025036 :: int) =
          Inr [Note 1529025036 (spec_note_fields ex_bages),
               Note 1529025036 (spec_note_fields ex_bages)]"
    by (simp only: list.map)
  have fields: "spec_note_fields ex_bages =
     [Some ''Manresa'', Some [], Some [], Some ''Bages'', Some [],
      Some (''<img src='' @ [CHR 0x22] @ ''Bages_escut.svg'' @ [CHR 0x22] @ ''>''),
      Some [],
      Some (''<img src='' @ [CHR 0x22] @ ''Bages_map.svg'' @ [CHR 0x22] @ ''>'')]"
    by (simp add: ex_bages_def spec_note_fields_def path_name_bages)
  from populated made fields show ?thesis by (simp only: simp_thms)
qed

text \<open>
  Claim C9.  When \<open>escut_url\<close> or \<open>map_url\<close> is unset on one of the records, the
  note-building operation raises \<open>TypeError\<close> and returns no note.  The case can be
  reached: records that all have a capital and a map, one of them without an escut,
  pass the validator and then make the note-building operation fail.
\<close>

theorem get_notes_unset_fails:
  "((\<exists>c \<in> set data. escut_url c = None \<or> map_url c = None) \<longrightarrow>
      (\<exists>msg. get_notes data m = Inl (Exn TypeError msg))) \<and>
   ((\<forall>c \<in> set data. \<not> falsy (capital c) \<and> \<not> falsy (map_url c)) \<and>
    (\<exists>c \<in> set data. escut_url c = None) \<longrightarrow>
      fst (validate_data data) = Inr True \<and>
      (\<exists>msg. get_notes data m = Inl (Exn TypeError msg)))"
  using get_notes_unset [of data m] validate_data_ok_iff [of data] by blast

theorem get_notes_unset_fails_witness:
  "escut_url ex_no_escut = None \<and>
   fst (validate_data [ex_bages, ex_no_escut]) = Inr True \<and>
   (\<exists>msg. get_notes [ex_bages, ex_no_escut] (1529025036 :: int) = Inl (Exn TypeError msg))"
  using get_notes_unset_fails [of "[ex_bages, ex_no_escut]" "1529025036 :: int"]
  by (simp add: ex_bages_def ex_no_escut_def falsy_def)

section \<open>The capital of a page\<close>













section \<open>A page without images\<close>

lemma first_page_single:
  "query r = Some q \<Longrightarrow> pages q = Some ((page_id, page) # rest) \<Longrightarrow> first_page r = Inr page"
  by (simp add: first_page_def response_pages_def bind_def next_iter_def getitem_def)

text \<open>
  Claim C7.  For a response whose first page entry has no \<open>images\<close> key, the alternate
  client returns the empty list and logs the warning "No images found for" with the
  page title, as the claim says.  The client of \<open>run.py\<close> does not: it subscripts the
  entry with \<open>images\<close> and raises \<open>KeyError\<close>, returning no list and logging nothing.
\<close>

theorem get_image_titles_no_images_key:
  "(query r = Some q \<and> pages q = Some ((page_id, page) # rest) \<and> images page = None \<longrightarrow>
      get_image_titles_of r = Inl (Exn KeyError (repr ''images'')) \<and>
      WikimediaAPIHandler_get_image_titles_of page_title r =
        (Inr [], [(WARNING, ''No images found for '' @ page_title)])) \<and>
   (requests_get_json w wikipedia_api_url (get_image_titles_params page_title) = Inr r \<and>
    query r = Some q \<and> pages q = Some ((page_id, page) # rest) \<and> images page = None \<longrightarrow>
      get_image_titles w page_title = Inl (Exn KeyError (repr ''images'')) \<and>
      WikimediaAPIHandler_get_image_titles w page_title =
        (Inr [], [(WARNING, ''No images found for '' @ page_title)]))"
  by (auto simp: get_image_titles_of_def WikimediaAPIHandler_get_image_titles_of_def
      get_image_titles_def WikimediaAPIHandler_get_image_titles_def catch_http_errors_def
      first_page_single bind_def)

theorem get_image_titles_no_images_key_witness:
  "requests_get_json ex_world_no_images wikipedia_api_url (get_image_titles_params ''Bages'') =
     Inr ex_response_no_images \<and>
   get_image_titles ex_world_no_images ''Bages'' = Inl (Exn KeyError (repr ''images'')) \<and>
   WikimediaAPIHandler_get_image_titles ex_world_no_images ''Bages'' =
     (Inr [], [(WARNING, ''No images found for Bages'')])"
proof -
  have r: "requests_get_json ex_world_no_images wikipedia_api_url
             (get_image_titles_params ''Bages'') = Inr ex_response_no_images"
    by (simp add: ex_world_no_images_def)
  have q: "query ex_response_no_images =
             Some \<lparr>pages = Some [(''-1'', \<lparr>images = None, imageinfo = None\<rparr>)]\<rparr>"
    by (simp add: ex_response_no_images_def)
  from get_image_titles_no_images_key
         [of ex_response_no_images
             "\<lparr>pages = Some [(''-1'', \<lparr>images = None, imageinfo = None\<rparr>)]\<rparr>"
             "''-1''" "\<lparr>images = None, imageinfo = None\<rparr>" "[]" "''Bages''"
             ex_world_no_images] r q
  show ?thesis by simp
qed

section \<open>The title sent to the media repository\<close>

lemma replace_Nil: "old \<noteq> [] \<Longrightarrow> replace old new [] = []"
  by (subst replace.simps) simp

lemma replace_append: "old \<noteq> [] \<Longrightarrow> replace old new (old @ rest) = new @ replace old new rest"
  by (subst replace.simps) simp

lemma replace_Cons:
  "old \<noteq> [] \<Longrightarrow> \<not> prefix old (c # rest) \<Longrightarrow>
     replace old new (c # rest) = c # replace old new rest"
  by (subst replace.simps) simp

lemma replace_no_occurrence:
  "old \<noteq> [] \<Longrightarrow> \<not> sublist old s \<Longrightarrow> replace old new s = s"
proof (induction s)
  case Nil
  then show ?case by (simp add: replace_Nil)
next
  case (Cons c s)
  then have "\<not> prefix old (c # s)" and "\<not> sublist old s"
    by (auto simp: sublist_Cons_right)
  with Cons show ?case by (simp add: replace_Cons)
qed

lemma titles_param:
  "map_of (get_image_info_params image_title) ''titles'' =
     Some (replace ''Fitxer:'' ''File:'' image_title)"
  by (simp add: get_image_info_params_def)

text \<open>
  Claim C8, as the specification states it, fails: the rewrite is not limited to a
  leading prefix.  A title without the leading prefix is changed when "Fitxer:" occurs
  further in, and a second occurrence after the leading prefix is rewritten too.
\<close>

theorem image_title_rewrite_not_leading_only:
  "map_of (get_image_info_params ''Mapa Fitxer:Bages.svg'') ''titles'' \<noteq>
     Some (spec_rewrite_leading_prefix ''Mapa Fitxer:Bages.svg'') \<and>
   map_of (get_image_info_params ''Fitxer:Fitxer:Bages.svg'') ''titles'' \<noteq>
     Some (spec_rewrite_leading_prefix ''Fitxer:Fitxer:Bages.svg'')"
  unfolding titles_param by code_simp

lemma get_image_info_request:
  "(case requests_get_json w commons_api_url (get_image_info_params image_title) of
      Inl e \<Rightarrow>
        get_image_info w image_title = (Inl e, []) \<and>
        WikimediaAPIHandler_get_image_info w image_title =
          (if is_http_error e
           then (Inr None, [(ERROR, ''HTTP exception in get_image_info: '' @ message e)])
           else (Inl e, []))
    | Inr r \<Rightarrow>
        get_image_info w image_title = get_image_info_of image_title r \<and>
        WikimediaAPIHandler_get_image_info w image_title =
          (Inl (Exn AttributeError
                 (repr ''dict'' @ '' object has no attribute '' @ repr ''text'')), []))"
  by (simp add: get_image_info_def WikimediaAPIHandler_get_image_info_def
      catch_http_errors_def is_http_error_def split: sum.splits)

text \<open>
  Claim C8, amended.  In both client variants the resolve-image-URL operation queries
  the media repository: its outcome is decided by what the request to the repository's
  endpoint with the parameters \<open>action=query\<close>, \<open>prop=imageinfo\<close>, \<open>format=json\<close>,
  \<open>iiprop=url\<close> and \<open>titles\<close> gives.  In the client of \<open>run.py\<close> an exception
  of that request goes on to the caller and an answer is read for the URL.  In the
  alternate client an exception of that request that is an HTTP error is replaced by
  an absent result with an error logged, any other exception goes on to the caller,
  and on an answer the client raises \<open>AttributeError\<close>.  The \<open>titles\<close> value of that
  request is the input title with every occurrence of "Fitxer:" replaced by "File:",
  found from left to right: an occurrence at the front is replaced and the scan goes
  on after it, a character that does not start an occurrence is kept.  A title in
  which "Fitxer:" does not occur is passed unchanged; a title whose only occurrence is
  the leading prefix has just that prefix rewritten; "Fitxer:Bages Mapa.svg" is
  queried as "File:Bages Mapa.svg".
\<close>

theorem get_image_info_titles:
  "(case requests_get_json w commons_api_url (get_image_info_params image_title) of
      Inl e \<Rightarrow>
        get_image_info w image_title = (Inl e, []) \<and>
        WikimediaAPIHandler_get_image_info w image_title =
          (if is_http_error e
           then (Inr None, [(ERROR, ''HTTP exception in get_image_info: '' @ message e)])
           else (Inl e, []))
    | Inr r \<Rightarrow>
        get_image_info w image_title = get_image_info_of image_title r \<and>
        WikimediaAPIHandler_get_image_info w image_title =
          (Inl (Exn AttributeError
                 (repr ''dict'' @ '' object has no attribute '' @ repr ''text'')), [])) \<and>
   get_image_info_params image_title =
     [(''action'', ''query''), (''prop'', ''imageinfo''), (''format'', ''json''),
      (''iiprop'', ''url''), (''titles'', replace ''Fitxer:'' ''File:'' image_title)] \<and>
   map_of (get_image_info_params image_title) ''titles'' =
     Some (replace ''Fitxer:'' ''File:'' image_title) \<and>
   replace ''Fitxer:'' ''File:'' (''Fitxer:'' @ rest) =
     ''File:'' @ replace ''Fitxer:'' ''File:'' rest \<and>
   (\<not> prefix ''Fitxer:'' (c # rest) \<longrightarrow>
      replace ''Fitxer:'' ''File:'' (c # rest) = c # replace ''Fitxer:'' ''File:'' rest) \<and>
   replace ''Fitxer:'' ''File:'' [] = [] \<and>
   (\<not> sublist ''Fitxer:'' image_title \<longrightarrow>
      map_of (get_image_info_params image_title) ''titles'' = Some image_title) \<and>
   (\<not> sublist ''Fitxer:'' rest \<longrightarrow>
      map_of (get_image_info_params (''Fitxer:'' @ rest)) ''titles'' = Some (''File:'' @ rest)) \<and>
   map_of (get_image_info_params ''Fitxer:Bages Mapa.svg'') ''titles'' =
     Some ''File:Bages Mapa.svg'' \<and>
   (requests_get_json w commons_api_url (get_image_info_params image_title) =
      requests_get_json w' commons_api_url (get_image_info_params image_title) \<longrightarrow>
    get_image_info w image_title = get_image_info w' image_title \<and>
    WikimediaAPIHandler_get_image_info w image_title =
      WikimediaAPIHandler_get_image_info w' image_title)"
proof (intro conjI impI)
  show "case requests_get_json w commons_api_url (get_image_info_params image_title) of
      Inl e \<Rightarrow>
        get_image_info w image_title = (Inl e, []) \<and>
        WikimediaAPIHandler_get_image_info w image_title =
          (if is_http_error e
           then (Inr None, [(ERROR, ''HTTP exception in get_image_info: '' @ message e)])
           else (Inl e, []))
    | Inr r \<Rightarrow>
        get_image_info w image_title = get_image_info_of image_title r \<and>
        WikimediaAPIHandler_get_image_info w image_title =
          (Inl (Exn AttributeError
                 (repr ''dict'' @ '' object has no attribute '' @ repr ''text'')), [])"
    by (rule get_image_info_request)
  show "map_of (get_image_info_params ''Fitxer:Bages Mapa.svg'') ''titles'' =
     Some ''File:Bages Mapa.svg''"
    unfolding titles_param by code_simp
  show "replace ''Fitxer:'' ''File:'' (''Fitxer:'' @ rest) =
     ''File:'' @ replace ''Fitxer:'' ''File:'' rest"
    by (rule replace_append) simp
  then show "map_of (get_image_info_params (''Fitxer:'' @ rest)) ''titles'' =
      Some (''File:'' @ rest)"
    if "\<not> sublist ''Fitxer:'' rest"
    using that
    by (simp only: titles_param replace_no_occurrence [of "''Fitxer:''" rest]
        list.simps simp_thms)
  show "get_image_info_params image_title =
     [(''action'', ''query''), (''prop'', ''imageinfo''), (''format'', ''json''),
      (''iiprop'', ''url''), (''titles'', replace ''Fitxer:'' ''File:'' image_title)]"
    by (simp add: get_image_info_params_def)
qed (simp_all add: titles_param replace_Nil replace_Cons replace_no_occurrence
      get_image_info_def WikimediaAPIHandler_get_image_info_def)

lemma ex_title_no_occurrence: "\<not> sublist ''Fitxer:'' ''Bages Mapa.svg''"
  by code_simp

lemma ex_world_image_info:
  "requests_get_json ex_world commons_api_url (get_image_info_params ''Fitxer:Bages Mapa.svg'') =
     Inr ex_response_imageinfo"
  "get_image_info_of ''Fitxer:Bages Mapa.svg'' ex_response_imageinfo =
     (Inr (Some ''https://upload.wikimedia.org/Bages.svg''), [])"
  "requests_get_json ex_world_commons_down commons_api_url
     (get_image_info_params ''Fitxer:Bages Mapa.svg'') =
     Inl (Exn ConnectionError ''unreachable'')"
  "is_http_error (Exn ConnectionError ''unreachable'')"
  by code_simp+

theorem get_image_info_titles_witness:
  "\<not> sublist ''Fitxer:'' ''Bages Mapa.svg'' \<and>
   map_of (get_image_info_params ''Bages Mapa.svg'') ''titles'' = Some ''Bages Mapa.svg'' \<and>
   map_of (get_image_info_params (''Fitxer:'' @ ''Bages Mapa.svg'')) ''titles'' =
     Some (''File:'' @ ''Bages Mapa.svg'') \<and>
   get_image_info ex_world ''Fitxer:Bages Mapa.svg'' =
     (Inr (Some ''https://upload.wikimedia.org/Bages.svg''), []) \<and>
   get_image_info ex_world_commons_down ''Fitxer:Bages Mapa.svg'' =
     (Inl (Exn ConnectionError ''unreachable''), []) \<and>
   WikimediaAPIHandler_get_image_info ex_world_commons_down ''Fitxer:Bages Mapa.svg'' =
     (Inr None, [(ERROR, ''HTTP exception in get_image_info: unreachable'')])"
proof -
  note t = get_image_info_titles [of _ "''Bages Mapa.svg''" "''Bages Mapa.svg''"]
  from t ex_title_no_occurrence
  have a: "map_of (get_image_info_params ''Bages Mapa.svg'') ''titles'' = Some ''Bages Mapa.svg''"
    by blast
  from t ex_title_no_occurrence
  have b: "map_of (get_image_info_params (''Fitxer:'' @ ''Bages Mapa.svg'')) ''titles'' =
             Some (''File:'' @ ''Bages Mapa.svg'')"
    by blast
  from get_image_info_titles [of ex_world "''Fitxer:Bages Mapa.svg''"]
  have c: "get_image_info ex_world ''Fitxer:Bages Mapa.svg'' =
             (Inr (Some ''https://upload.wikimedia.org/Bages.svg''), [])"
    by (simp add: ex_world_image_info)
  from get_image_info_titles [of ex_world_commons_down "''Fitxer:Bages Mapa.svg''"]
  have d: "get_image_info ex_world_commons_down ''Fitxer:Bages Mapa.svg'' =
             (Inl (Exn ConnectionError ''unreachable''), []) \<and>
           WikimediaAPIHandler_get_image_info ex_world_commons_down ''Fitxer:Bages Mapa.svg'' =
             (Inr None, [(ERROR, ''HTTP exception in get_image_info: unreachable'')])"
    by (simp add: ex_world_image_info)
  from ex_title_no_occurrence a b c d show ?thesis by (intro conjI) simp_all
qed

section \<open>The fields that the alternate client changes\<close>

lemma images_loop_frame:
  "images_loop w titles c = (r, c', lg) \<Longrightarrow>
     c' = c\<lparr>map_url := map_url c', escut_url := escut_url c'\<rparr>"
proof (induction titles arbitrary: c r c' lg)
  case Nil
  then show ?case by simp
next
  case (Cons t rest)
  show ?case
  proof (cases "sublist ''Mapa'' t")
    case True
    show ?thesis
    proof (cases "WikimediaAPIHandler_get_image_info w t")
      case (Pair res lg1)
      show ?thesis
      proof (cases res)
        case (Inl e)
        with Cons.prems True Pair show ?thesis by simp
      next
        case (Inr u)
        with Cons.prems True Pair obtain lg2 where
          "images_loop w rest (c\<lparr>map_url := u\<rparr>) = (r, c', lg2)"
          by (auto split: prod.splits)
        from Cons.IH [OF this] show ?thesis by (cases c; cases c') simp
      qed
    qed
  next
    case False
    show ?thesis
    proof (cases "sublist ''Escut'' t \<or> sublist ''Coat of arms'' t")
      case escut: True
      show ?thesis
      proof (cases "WikimediaAPIHandler_get_image_info w t")
        case (Pair res lg1)
        show ?thesis
        proof (cases res)
          case (Inl e)
          with Cons.prems False escut Pair show ?thesis by auto
        next
          case (Inr u)
          with Cons.prems False escut Pair obtain lg2 where
            "images_loop w rest (c\<lparr>escut_url := u\<rparr>) = (r, c', lg2)"
            by (auto split: prod.splits)
          from Cons.IH [OF this] show ?thesis by (cases c; cases c') simp
        qed
      qed
    next
      case neither: False
      with Cons.prems False have "images_loop w rest c = (r, c', lg)" by simp
      from Cons.IH [OF this] show ?thesis .
    qed
  qed
qed

lemma get_images_for_comarca_frame:
  "get_images_for_comarca w c = (r, c') \<Longrightarrow>
     c' = c\<lparr>map_url := map_url c', escut_url := escut_url c'\<rparr>"
  by (auto simp: get_images_for_comarca_def split: prod.splits sum.splits option.splits
      dest: images_loop_frame)

text \<open>
  Claim C10.  Whatever the image titles and whatever the media repository answers, the
  loop of the populate-record-images operation, and the operation itself, leave the
  record equal to the one they were given except for \<open>map_url\<close> and \<open>escut_url\<close>: the
  comarca name and the capital are the same after as before, also when the operation
  ends with an exception.
\<close>

theorem get_images_for_comarca_keeps_other_fields:
  "(case images_loop w titles c of
      (r, c', lg) \<Rightarrow>
        comarca c' = comarca c \<and> capital c' = capital c \<and>
        c' = c\<lparr>map_url := map_url c', escut_url := escut_url c'\<rparr>) \<and>
   (case get_images_for_comarca w c of
      (r, c') \<Rightarrow>
        comarca c' = comarca c \<and> capital c' = capital c \<and>
        c' = c\<lparr>map_url := map_url c', escut_url := escut_url c'\<rparr>)"
proof
  obtain r c' lg where l: "images_loop w titles c = (r, c', lg)"
    by (cases "images_loop w titles c") auto
  from images_loop_frame [OF l]
  have "c' = c\<lparr>map_url := map_url c', escut_url := escut_url c'\<rparr>" .
  then have "comarca c' = comarca c \<and> capital c' = capital c \<and>
             c' = c\<lparr>map_url := map_url c', escut_url := escut_url c'\<rparr>"
    by (cases c; cases c') simp
  with l show "case images_loop w titles c of
      (r, c', lg) \<Rightarrow>
        comarca c' = comarca c \<and> capital c' = capital c \<and>
        c' = c\<lparr>map_url := map_url c', escut_url := escut_url c'\<rparr>"
    by simp
next
  obtain r c' where g: "get_images_for_comarca w c = (r, c')"
    by (cases "get_images_for_comarca w c") auto
  from get_images_for_comarca_frame [OF g]
  have "c' = c\<lparr>map_url := map_url c', escut_url := escut_url c'\<rparr>" .
  then have "comarca c' = comarca c \<and> capital c' = capital c \<and>
             c' = c\<lparr>map_url := map_url c', escut_url := escut_url c'\<rparr>"
    by (cases c; cases c') simp
  with g show "case get_images_for_comarca w c of
      (r, c') \<Rightarrow>
        comarca c' = comarca c \<and> capital c' = capital c \<and>
        c' = c\<lparr>map_url := map_url c', escut_url := escut_url c'\<rparr>"
    by simp
qed

lemma ex_images_for_comarca:
  "get_images_for_comarca ex_world_commons_down ex_bages =
     ((Inr None,
       [(ERROR, ''HTTP exception in get_image_info: unreachable''),
        (ERROR, ''HTTP exception in get_image_info: unreachable'')]),
      \<lparr>comarca = ''Bages'', capital = Some ''Manresa'', map_url = None, escut_url = None\<rparr>)"
  by code_simp

theorem get_images_for_comarca_keeps_other_fields_witness:
  "get_images_for_comarca ex_world_commons_down ex_bages =
     ((Inr None,
       [(ERROR, ''HTTP exception in get_image_info: unreachable''),
        (ERROR, ''HTTP exception in get_image_info: unreachable'')]),
      \<lparr>comarca = ''Bages'', capital = Some ''Manresa'', map_url = None, escut_url = None\<rparr>) \<and>
   comarca ex_bages = ''Bages'' \<and> capital ex_bages = Some ''Manresa''"
proof -
  have "comarca ex_bages = ''Bages'' \<and> capital ex_bages = Some ''Manresa''"
    by (simp add: ex_bages_def)
  with get_images_for_comarca_keeps_other_fields
         [where w = ex_world_commons_down and c = ex_bages and titles = "[]"]
  show ?thesis
    by (simp add: ex_images_for_comarca)
qed

section \<open>The files after a download\<close>

text \<open>
  Claim C6, as the specification states it, fails for a failure of the file system:
  when the body has arrived and writing it fails, the exception is caught and logged,
  and the destination, absent before, is left behind by the opening that created it,
  here as an empty file.
\<close>

theorem download_svg_leaves_file_behind:
  "Map.empty ''imgs/Bages_map.svg'' = (None :: string option) \<and>
   fst (download_svg_try ex_world_disk_full (Some ''https://upload.wikimedia.org/Bages.svg'')
          ''imgs/Bages_map.svg'' Map.empty) =
     Some (Exn OSError ''[Errno 28] No space left on device'') \<and>
   fst (download_svg ex_world_disk_full (Some ''https://upload.wikimedia.org/Bages.svg'')
          ''imgs/Bages_map.svg'' Map.empty) = None \<and>
   fst (snd (download_svg ex_world_disk_full (Some ''https://upload.wikimedia.org/Bages.svg'')
          ''imgs/Bages_map.svg'' Map.empty)) ''imgs/Bages_map.svg'' = Some [] \<and>
   snd (snd (download_svg ex_world_disk_full (Some ''https://upload.wikimedia.org/Bages.svg'')
          ''imgs/Bages_map.svg'' Map.empty)) =
     [(ERROR, ''Failed to download https://upload.wikimedia.org/Bages.svg: '' @
              ''[Errno 28] No space left on device'')]"
  by (simp add: download_svg_def download_svg_try_def download_request_def
      ex_world_disk_full_def str_def)

text \<open>
  Claim C6, amended.  The download operation never raises to its caller: an exception
  of the request, of the status check, of opening the destination or of writing to it
  is caught and logged as an error with the URL and the exception text.  When the
  request, the status check or the opening fails, the files are left as they were, so
  a destination that was absent stays absent.  When the writing fails, the destination
  holds the part of the body written before the failure.  When nothing fails, the
  destination holds the body and nothing is logged.
\<close>

theorem download_svg_outcomes:
  "fst (download_svg w url filename files) = None \<and>
   (\<forall>e. download_request w url = Inl e \<longrightarrow>
      download_svg w url filename files =
        (None, files, [(ERROR, ''Failed to download '' @ str url @ '': '' @ message e)])) \<and>
   (\<forall>r e. download_request w url = Inr r \<and> raise_for_status r = Some e \<longrightarrow>
      download_svg w url filename files =
        (None, files, [(ERROR, ''Failed to download '' @ str url @ '': '' @ message e)])) \<and>
   (\<forall>r e. download_request w url = Inr r \<and> raise_for_status r = None \<and>
          open_wb w filename = Some e \<longrightarrow>
      download_svg w url filename files =
        (None, files, [(ERROR, ''Failed to download '' @ str url @ '': '' @ message e)])) \<and>
   (\<forall>r e n. download_request w url = Inr r \<and> raise_for_status r = None \<and>
            open_wb w filename = None \<and> file_write w filename (content r) = Some (e, n) \<longrightarrow>
      download_svg w url filename files =
        (None, files(filename \<mapsto> take n (content r)),
         [(ERROR, ''Failed to download '' @ str url @ '': '' @ message e)])) \<and>
   (\<forall>r. download_request w url = Inr r \<and> raise_for_status r = None \<and>
        open_wb w filename = None \<and> file_write w filename (content r) = None \<longrightarrow>
      download_svg w url filename files = (None, files(filename \<mapsto> content r), []))"
  by (auto simp: download_svg_def download_svg_try_def split: sum.splits option.splits)

theorem download_svg_outcomes_witness:
  "download_request ex_world (Some ''https://upload.wikimedia.org/Bages.svg'') =
     Inl (Exn ConnectionError ''unreachable'') \<and>
   download_svg ex_world (Some ''https://upload.wikimedia.org/Bages.svg'')
       ''imgs/Bages_map.svg'' Map.empty =
     (None, Map.empty,
      [(ERROR, ''Failed to download https://upload.wikimedia.org/Bages.svg: unreachable'')])"
proof -
  have r: "download_request ex_world (Some ''https://upload.wikimedia.org/Bages.svg'') =
             Inl (Exn ConnectionError ''unreachable'')"
    by (simp add: ex_world_def download_request_def)
  with download_svg_outcomes
         [of ex_world "Some ''https://upload.wikimedia.org/Bages.svg''"
             "''imgs/Bages_map.svg''" Map.empty]
  show ?thesis by (simp add: str_def)
qed

section \<open>The assembled record\<close>










lemma get_comarca_data_no_images:
  "fst (get_comarca_data ex_world_no_images ''Bages'' Map.empty) =
     Inl (Exn KeyError (repr ''images''))"
  by code_simp




end
